theory Spec2Isabelle
  imports Complex_Main
begin

section \<open>Data model (types.ts)\<close>

text \<open>
  JavaScript numbers are modelled as exact reals: rounding, overflow, infinities and NaN
  are outside the model, so an equality that the program reaches "within floating-point
  tolerance" is an exact equality here. Field names follow the source; \<open>x\<close>, \<open>y\<close>,
  \<open>id\<close>, \<open>start\<close>, \<open>end\<close>, \<open>left\<close> and \<open>top\<close> carry a prefix because the bare names
  are variables, constants or keywords of the logic.
\<close>

record Point =
  px :: real
  py :: real

text \<open>
  \<open>CanvasElement = NoteElement | ImageElement | ArrowElement\<close>: the fields of
  \<open>BaseElement\<close> are shared, the discriminating \<open>type\<close> tag and the fields of each
  variant are the payload.
\<close>

datatype ElementData =
    NoteData string string        \<comment> \<open>\<open>type: 'note'\<close>, content, color\<close>
  | ImageData string              \<comment> \<open>\<open>type: 'image'\<close>, src\<close>
  | ArrowData Point Point string  \<comment> \<open>\<open>type: 'arrow'\<close>, start, end, color\<close>

record CanvasElement =
  el_id :: string
  position :: Point
  width :: real
  height :: real
  rotation :: real
  zIndex :: int
  payload :: ElementData

fun isNote :: "CanvasElement \<Rightarrow> bool" where
  "isNote el = (case payload el of NoteData t c \<Rightarrow> True | _ \<Rightarrow> False)"

fun isImage :: "CanvasElement \<Rightarrow> bool" where
  "isImage el = (case payload el of ImageData s \<Rightarrow> True | _ \<Rightarrow> False)"

text \<open>The fields of the DOM events that the handlers read.\<close>

record MouseEvent =
  clientX :: real
  clientY :: real
  button :: int
  shiftKey :: bool
  targetClosest :: bool
    \<comment> \<open>\<open>e.target.closest('.transform-handle, .element-body, .generate-btn')\<close> is non-null\<close>

record WheelEvent =
  wheelClientX :: real
  wheelClientY :: real
  deltaY :: real

record DOMRect =
  rect_left :: real
  rect_top :: real
  rect_width :: real
  rect_height :: real

section \<open>InfiniteCanvas: viewport, marquee, generate trigger\<close>

record MarqueeRect =
  m_start :: Point
  m_end :: Point

record CanvasState =
  pan :: Point
  zoom :: real
  isPanning :: bool
  startPan :: Point
  isSpacebarPressed :: bool
  marqueeRect :: "MarqueeRect option"

text \<open>The calls a handler makes on the callbacks it received as props, in order.\<close>

datatype Callback =
    OnSelectElement "string option" bool
  | OnMarqueeSelect "string list" bool
  | OnGenerate "CanvasElement list"

definition MIN_ZOOM :: real where
  "MIN_ZOOM = 0.1"

definition MAX_ZOOM :: real where
  "MAX_ZOOM = 5"

text \<open>The \<open>useState\<close> initial values.\<close>

definition initialState :: CanvasState where
  "initialState =
     \<lparr>pan = \<lparr>px = 0, py = 0\<rparr>, zoom = 1, isPanning = False,
      startPan = \<lparr>px = 0, py = 0\<rparr>, isSpacebarPressed = False, marqueeRect = None\<rparr>"

definition screenToWorld :: "CanvasState \<Rightarrow> Point \<Rightarrow> Point" where
  "screenToWorld s screenPoint =
     \<lparr>px = (px screenPoint - px (pan s)) / zoom s,
      py = (py screenPoint - py (pan s)) / zoom s\<rparr>"

text \<open>
  \<open>handleWheel\<close>: \<open>canvasRef.current\<close> is the first argument, \<open>None\<close> when the ref is
  not attached (the handler then returns without touching the state).
\<close>

definition handleWheel :: "DOMRect option \<Rightarrow> CanvasState \<Rightarrow> WheelEvent \<Rightarrow> CanvasState" where
  "handleWheel canvasRef s e =
     (case canvasRef of
        None \<Rightarrow> s
      | Some rect \<Rightarrow>
          (let mouseX = wheelClientX e - rect_left rect;
               mouseY = wheelClientY e - rect_top rect;
               worldX = (mouseX - px (pan s)) / zoom s;
               worldY = (mouseY - py (pan s)) / zoom s;
               zoomFactor = 1 - deltaY e * 0.001;
               newZoom = max MIN_ZOOM (min MAX_ZOOM (zoom s * zoomFactor));
               newPanX = mouseX - worldX * newZoom;
               newPanY = mouseY - worldY * newZoom
           in s\<lparr>zoom := newZoom, pan := \<lparr>px = newPanX, py = newPanY\<rparr>\<rparr>))"

text \<open>The canvas-relative pointer position that \<open>handleWheel\<close> anchors the zoom at.\<close>

definition wheelPoint :: "DOMRect \<Rightarrow> WheelEvent \<Rightarrow> Point" where
  "wheelPoint rect e =
     \<lparr>px = wheelClientX e - rect_left rect, py = wheelClientY e - rect_top rect\<rparr>"

text \<open>A run of wheel events, each with the ref as it is when the event arrives.\<close>

fun wheelRun :: "CanvasState \<Rightarrow> (DOMRect option \<times> WheelEvent) list \<Rightarrow> CanvasState" where
  "wheelRun s [] = s"
| "wheelRun s ((r, e) # es) = wheelRun (handleWheel r s e) es"

text \<open>The object literal \<open>selectionBox\<close> of \<open>handleMouseUp\<close>.\<close>

record SelectionBox =
  minX :: real
  maxX :: real
  minY :: real
  maxY :: real

definition handleMouseDown :: "CanvasState \<Rightarrow> MouseEvent \<Rightarrow> CanvasState \<times> Callback list" where
  "handleMouseDown s e =
     (if button e \<noteq> 0 \<or> targetClosest e then (s, [])
      else if isSpacebarPressed s then
        (s\<lparr>isPanning := True,
           startPan := \<lparr>px = clientX e - px (pan s), py = clientY e - py (pan s)\<rparr>\<rparr>, [])
      else
        (s\<lparr>marqueeRect :=
             Some \<lparr>m_start = \<lparr>px = clientX e, py = clientY e\<rparr>,
                   m_end = \<lparr>px = clientX e, py = clientY e\<rparr>\<rparr>\<rparr>,
         [OnSelectElement None (shiftKey e)]))"

text \<open>
  \<open>handleMouseUp\<close>, in three parts: the selection box of a marquee, the filter over the
  elements, and the handler itself.
\<close>

definition selectionBoxOf :: "CanvasState \<Rightarrow> MarqueeRect \<Rightarrow> SelectionBox" where
  "selectionBoxOf s m =
     (let startWorld = screenToWorld s (m_start m);
          endWorld = screenToWorld s (m_end m)
      in \<lparr>minX = min (px startWorld) (px endWorld),
          maxX = max (px startWorld) (px endWorld),
          minY = min (py startWorld) (py endWorld),
          maxY = max (py startWorld) (py endWorld)\<rparr>)"

definition marqueeSelectedIds :: "CanvasState \<Rightarrow> MarqueeRect \<Rightarrow> CanvasElement list \<Rightarrow> string list" where
  "marqueeSelectedIds s m elements =
     (let selectionBox = selectionBoxOf s m
      in map el_id
           (filter (\<lambda>el. px (position el) \<ge> minX selectionBox \<and>
                         px (position el) \<le> maxX selectionBox \<and>
                         py (position el) \<ge> minY selectionBox \<and>
                         py (position el) \<le> maxY selectionBox) elements))"

definition handleMouseUp ::
  "CanvasState \<Rightarrow> CanvasElement list \<Rightarrow> MouseEvent \<Rightarrow> CanvasState \<times> Callback list" where
  "handleMouseUp s elements e =
     (case marqueeRect s of
        None \<Rightarrow> (s\<lparr>isPanning := False\<rparr>, [])
      | Some m \<Rightarrow>
          (let selectedIds = marqueeSelectedIds s m elements
           in (s\<lparr>isPanning := False, marqueeRect := None\<rparr>,
               if length selectedIds > 0 then [OnMarqueeSelect selectedIds (shiftKey e)] else [])))"

definition handleMouseMove :: "CanvasState \<Rightarrow> MouseEvent \<Rightarrow> CanvasState" where
  "handleMouseMove s e =
     (if isPanning s then
        s\<lparr>pan := \<lparr>px = clientX e - px (startPan s), py = clientY e - py (startPan s)\<rparr>\<rparr>
      else
        (case marqueeRect s of
           Some prev \<Rightarrow> s\<lparr>marqueeRect := Some (prev\<lparr>m_end := \<lparr>px = clientX e, py = clientY e\<rparr>\<rparr>)\<rparr>
         | None \<Rightarrow> s))"

definition handleGenerateClick ::
  "CanvasState \<Rightarrow> CanvasElement list \<Rightarrow> string list \<Rightarrow> CanvasState \<times> Callback list" where
  "handleGenerateClick s elements selectedElementIds =
     (let selectedElements = filter (\<lambda>el. el_id el \<in> set selectedElementIds) elements
      in if length selectedElements > 0 then (s, [OnGenerate selectedElements]) else (s, []))"

section \<open>TransformableElement: the gesture engine\<close>

datatype InteractionType = Drag | Resize | Rotate | ResizeArrowStart | ResizeArrowEnd

record Interaction =
  itype :: InteractionType
  startPoint :: Point
  startElement :: CanvasElement
  startAngle :: "real option"
  center :: "Point option"

text \<open>
  \<open>Math.atan2\<close> on the reals, the angle of the vector \<open>(x, y)\<close> in \<open>(-\<pi>, \<pi>]\<close>, with
  \<open>Math.atan2(0, 0) = 0\<close>; the signed zeros of the floating-point function are outside
  the model.
\<close>

definition atan2 :: "real \<Rightarrow> real \<Rightarrow> real" where
  "atan2 y x =
     (if 0 < x then arctan (y / x)
      else if x < 0 \<and> 0 \<le> y then arctan (y / x) + pi
      else if x < 0 then arctan (y / x) - pi
      else if 0 < y then pi / 2
      else if y < 0 then - (pi / 2)
      else 0)"

text \<open>Reading a property of \<open>undefined\<close> throws.\<close>

datatype error = TypeError

text \<open>
  \<open>handleInteractionStart\<close>: the first argument is \<open>elementRef.current\<close> as its bounding
  rectangle, the third the interaction slot before the call. The result is the slot
  after the call and the calls made on \<open>onSelect\<close>.
\<close>

definition handleInteractionStart ::
  "DOMRect option \<Rightarrow> CanvasElement \<Rightarrow> Interaction option \<Rightarrow> MouseEvent \<Rightarrow> InteractionType
     \<Rightarrow> Interaction option \<times> Callback list" where
  "handleInteractionStart elementRef element interaction e ty =
     (if button e \<noteq> 0 then (interaction, [])
      else
        (let sp = \<lparr>px = clientX e, py = clientY e\<rparr>;
             interactionDetails =
               \<lparr>itype = ty, startPoint = sp, startElement = element,
                startAngle = None, center = None\<rparr>;
             interactionDetails' =
               (case elementRef of
                  Some rect \<Rightarrow>
                    if ty = Rotate then
                      (let centerX = rect_left rect + rect_width rect / 2;
                           centerY = rect_top rect + rect_height rect / 2
                       in interactionDetails
                            \<lparr>center := Some \<lparr>px = centerX, py = centerY\<rparr>,
                             startAngle := Some (atan2 (py sp - centerY) (px sp - centerX))\<rparr>)
                    else interactionDetails
                | None \<Rightarrow> interactionDetails)
         in (Some interactionDetails', [OnSelectElement (Some (el_id element)) (shiftKey e)])))"

text \<open>
  \<open>handleInteractionMove\<close>: \<open>zoomProp\<close> and \<open>element\<close> are the props of the render the
  handler closes over. The result is the call made on \<open>onUpdate\<close>, if any: the updated
  element and the optional drag delta.
\<close>

definition handleInteractionMove ::
  "Interaction option \<Rightarrow> real \<Rightarrow> CanvasElement \<Rightarrow> MouseEvent
     \<Rightarrow> error + (CanvasElement \<times> Point option) option" where
  "handleInteractionMove interaction zoomProp element e =
     (case interaction of
        None \<Rightarrow> Inr None
      | Some i \<Rightarrow>
          (let ty = itype i;
               sp = startPoint i;
               se = startElement i;
               dx = (clientX e - px sp) / zoomProp;
               dy = (clientY e - py sp) / zoomProp
           in
             if ty = Drag then
               (let newPosition = \<lparr>px = px (position se) + dx, py = py (position se) + dy\<rparr>;
                    delta = \<lparr>px = px newPosition - px (position element),
                             py = py newPosition - py (position element)\<rparr>;
                    updatedElement =
                      (case payload se of
                         ArrowData st en c \<Rightarrow>
                           se\<lparr>position := newPosition,
                              payload := ArrowData \<lparr>px = px st + dx, py = py st + dy\<rparr>
                                                   \<lparr>px = px en + dx, py = py en + dy\<rparr> c\<rparr>
                       | _ \<Rightarrow> se\<lparr>position := newPosition\<rparr>)
                in Inr (Some (updatedElement, Some delta)))
             else if ty = Resize then
               (let rad = rotation se * (pi / 180);
                    cs = cos (- rad);
                    sn = sin (- rad);
                    rotDx = dx * cs - dy * sn;
                    rotDy = dx * sn + dy * cs;
                    newWidth = max 20 (width se + rotDx);
                    newHeight = max 20 (height se + rotDy);
                    dw = newWidth - width se;
                    dh = newHeight - height se;
                    posDx = (dw / 2 * cos rad) - (dh / 2 * sin rad);
                    posDy = (dw / 2 * sin rad) + (dh / 2 * cos rad)
                in Inr (Some (se\<lparr>width := newWidth, height := newHeight,
                                 position := \<lparr>px = px (position se) + posDx,
                                              py = py (position se) + posDy\<rparr>\<rparr>, None)))
             else if ty = Rotate \<and> center i \<noteq> None \<and> startAngle i \<noteq> None then
               (let c = the (center i);
                    a = the (startAngle i);
                    currentAngle = atan2 (clientY e - py c) (clientX e - px c);
                    angleDiff = currentAngle - a
                in Inr (Some (se\<lparr>rotation := rotation se + angleDiff * (180 / pi)\<rparr>, None)))
             else if ty = ResizeArrowStart \<or> ty = ResizeArrowEnd then
               (case payload se of
                  ArrowData st0 en0 c \<Rightarrow>
                    (let st = (if ty = ResizeArrowStart
                               then \<lparr>px = px st0 + dx, py = py st0 + dy\<rparr> else st0);
                         en = (if ty = ResizeArrowStart
                               then en0 else \<lparr>px = px en0 + dx, py = py en0 + dy\<rparr>);
                         newDx = px en - px st;
                         newDy = py en - py st;
                         newWidth = max 10 (sqrt (newDx * newDx + newDy * newDy));
                         newRotation = atan2 newDy newDx * (180 / pi);
                         newPosition = \<lparr>px = (px st + px en) / 2, py = (py st + py en) / 2\<rparr>
                     in Inr (Some (se\<lparr>payload := ArrowData st en c, position := newPosition,
                                      width := newWidth, rotation := newRotation\<rparr>, None)))
                | _ \<Rightarrow> Inl TypeError)
             else Inr None))"

text \<open>
  A gesture: the interaction slot and the zoom stay as they are while move events
  arrive. Each event gives one outcome, the element handed to \<open>onUpdate\<close> if any. The
  document store that receives \<open>onUpdate\<close> is not part of the component; \<open>store\<close> is
  whatever it does, mapping the current \<open>element\<close> prop, the updated element and the
  drag delta to the \<open>element\<close> prop of the next render.
\<close>

definition updatedElementOf ::
  "error + (CanvasElement \<times> Point option) option \<Rightarrow> error + CanvasElement option" where
  "updatedElementOf r =
     (case r of Inl err \<Rightarrow> Inl err | Inr None \<Rightarrow> Inr None | Inr (Some (u, d)) \<Rightarrow> Inr (Some u))"

fun gestureRun ::
  "(CanvasElement \<Rightarrow> CanvasElement \<Rightarrow> Point option \<Rightarrow> CanvasElement) \<Rightarrow> Interaction option
     \<Rightarrow> real \<Rightarrow> CanvasElement \<Rightarrow> MouseEvent list \<Rightarrow> (error + CanvasElement option) list" where
  "gestureRun store interaction zoomProp element [] = []"
| "gestureRun store interaction zoomProp element (e # es) =
     (let r = handleInteractionMove interaction zoomProp element e;
          element' = (case r of Inr (Some (u, d)) \<Rightarrow> store element u d | _ \<Rightarrow> element)
      in updatedElementOf r # gestureRun store interaction zoomProp element' es)"

section \<open>The properties as the specification words them\<close>

text \<open>The Euclidean length \<open>|end - start|\<close> and the arrow invariant of the data model.\<close>

definition arrowLength :: "Point \<Rightarrow> Point \<Rightarrow> real" where
  "arrowLength st en = sqrt ((px en - px st)\<^sup>2 + (py en - py st)\<^sup>2)"

definition arrowInvariant :: "CanvasElement \<Rightarrow> bool" where
  "arrowInvariant el =
     (case payload el of
        ArrowData st en c \<Rightarrow>
          position el = \<lparr>px = (px st + px en) / 2, py = (py st + py en) / 2\<rparr> \<and>
          width el = arrowLength st en \<and>
          rotation el = atan2 (py en - py st) (px en - px st) * (180 / pi)
      | _ \<Rightarrow> False)"

text \<open>The same with the width floored at 10, as the endpoint gestures compute it.\<close>

definition arrowInvariantFloored :: "CanvasElement \<Rightarrow> bool" where
  "arrowInvariantFloored el =
     (case payload el of
        ArrowData st en c \<Rightarrow>
          position el = \<lparr>px = (px st + px en) / 2, py = (py st + py en) / 2\<rparr> \<and>
          width el = max 10 (arrowLength st en) \<and>
          rotation el = atan2 (py en - py st) (px en - px st) * (180 / pi)
      | _ \<Rightarrow> False)"

text \<open>Rotation of a vector by an angle in degrees, as in \<open>getRotatedCorners\<close>.\<close>

definition rotate :: "Point \<Rightarrow> real \<Rightarrow> Point" where
  "rotate v deg =
     (let rad = deg * (pi / 180)
      in \<lparr>px = px v * cos rad - py v * sin rad, py = px v * sin rad + py v * cos rad\<rparr>)"

definition translate :: "Point \<Rightarrow> real \<Rightarrow> real \<Rightarrow> Point" where
  "translate p dx dy = \<lparr>px = px p + dx, py = py p + dy\<rparr>"

text \<open>The top-left corner of an unrotated element.\<close>

definition topLeft :: "CanvasElement \<Rightarrow> Point" where
  "topLeft el = \<lparr>px = px (position el) - width el / 2, py = py (position el) - height el / 2\<rparr>"

text \<open>The marquee hit test: the centre of the element lies in the world rectangle.\<close>

definition centerInMarquee :: "CanvasState \<Rightarrow> MarqueeRect \<Rightarrow> CanvasElement \<Rightarrow> bool" where
  "centerInMarquee s m el =
     (let a = screenToWorld s (m_start m);
          b = screenToWorld s (m_end m)
      in min (px a) (px b) \<le> px (position el) \<and> px (position el) \<le> max (px a) (px b) \<and>
         min (py a) (py b) \<le> py (position el) \<and> py (position el) \<le> max (py a) (py b))"

text \<open>The currently selected elements: those whose identifier is in the selection.\<close>

definition currentSelection :: "CanvasElement list \<Rightarrow> string list \<Rightarrow> CanvasElement list" where
  "currentSelection elements ids = [el \<leftarrow> elements. el_id el \<in> set ids]"

section \<open>Concrete inputs\<close>

definition exampleNote :: CanvasElement where
  "exampleNote =
     \<lparr>el_id = ''note-1'', position = \<lparr>px = 0, py = 0\<rparr>, width = 100, height = 50,
      rotation = 0, zIndex = 1, payload = NoteData ''hello'' ''bg-yellow-400''\<rparr>"

definition exampleArrow :: CanvasElement where
  "exampleArrow =
     \<lparr>el_id = ''arrow-1'', position = \<lparr>px = 50, py = 0\<rparr>, width = 100, height = 30,
      rotation = 0, zIndex = 2,
      payload = ArrowData \<lparr>px = 0, py = 0\<rparr> \<lparr>px = 100, py = 0\<rparr> ''text-gray-800''\<rparr>"

definition exampleBig :: CanvasElement where
  "exampleBig =
     \<lparr>el_id = ''note-2'', position = \<lparr>px = 10, py = 10\<rparr>, width = 100, height = 100,
      rotation = 0, zIndex = 3, payload = NoteData ''big'' ''bg-blue-400''\<rparr>"

text \<open>A marquee dragged from screen (5, 5) to (0, 0) in the initial viewport.\<close>

definition exampleMarquee :: CanvasState where
  "exampleMarquee =
     initialState\<lparr>marqueeRect := Some \<lparr>m_start = \<lparr>px = 5, py = 5\<rparr>, m_end = \<lparr>px = 0, py = 0\<rparr>\<rparr>\<rparr>"

text \<open>A pointer event at a client position, left button, no shift.\<close>

definition moveTo :: "real \<Rightarrow> real \<Rightarrow> MouseEvent" where
  "moveTo cx cy =
     \<lparr>clientX = cx, clientY = cy, button = 0, shiftKey = False, targetClosest = True\<rparr>"

text \<open>The interaction slot after pointer-down at a client position on an element.\<close>

definition gestureAt :: "InteractionType \<Rightarrow> real \<Rightarrow> real \<Rightarrow> CanvasElement \<Rightarrow> Interaction" where
  "gestureAt ty cx cy S =
     \<lparr>itype = ty, startPoint = \<lparr>px = cx, py = cy\<rparr>, startElement = S,
      startAngle = None, center = None\<rparr>"

section \<open>Viewport properties\<close>

lemma handleWheel_zoom_clamped:
  "MIN_ZOOM \<le> zoom (handleWheel (Some rect) s e) \<and> zoom (handleWheel (Some rect) s e) \<le> MAX_ZOOM"
  by (simp add: handleWheel_def Let_def MIN_ZOOM_def MAX_ZOOM_def)

lemma wheelRun_zoom_inv:
  "MIN_ZOOM \<le> zoom s \<Longrightarrow> zoom s \<le> MAX_ZOOM \<Longrightarrow>
   MIN_ZOOM \<le> zoom (wheelRun s es) \<and> zoom (wheelRun s es) \<le> MAX_ZOOM"
proof (induction es arbitrary: s)
  case Nil
  then show ?case by simp
next
  case (Cons a es)
  obtain r e where a: "a = (r, e)" by (cases a)
  show ?case
  proof (cases r)
    case None
    with a Cons show ?thesis by (simp add: handleWheel_def)
  next
    case (Some rect)
    have "MIN_ZOOM \<le> zoom (wheelRun (handleWheel (Some rect) s e) es) \<and>
          zoom (wheelRun (handleWheel (Some rect) s e) es) \<le> MAX_ZOOM"
      using handleWheel_zoom_clamped [of rect s e] by (intro Cons.IH) simp_all
    with a Some show ?thesis by simp
  qed
qed

text \<open>
  C1 (zoom-anchor invariant). For every pan offset, every zoom in [0.1, 5.0] and every
  canvas-relative pointer position P of a wheel event, the world point that
  \<open>screenToWorld\<close> gives for P under the pan and zoom set by \<open>handleWheel\<close> is the world
  point it gave for P under the old pan and zoom.
\<close>

theorem zoom_anchor:
  assumes "MIN_ZOOM \<le> zoom s" and "zoom s \<le> MAX_ZOOM"
  shows "screenToWorld (handleWheel (Some rect) s e) (wheelPoint rect e)
         = screenToWorld s (wheelPoint rect e)"
proof -
  let ?nz = "max MIN_ZOOM (min MAX_ZOOM (zoom s * (1 - deltaY e * 0.001)))"
  have nz: "?nz \<noteq> 0"
    by (simp add: MIN_ZOOM_def MAX_ZOOM_def max_def min_def)
  show ?thesis
    using nz by (simp add: screenToWorld_def handleWheel_def wheelPoint_def Let_def)
qed

theorem zoom_anchor_witness:
  "MIN_ZOOM \<le> zoom initialState \<and> zoom initialState \<le> MAX_ZOOM \<and>
   handleWheel (Some \<lparr>rect_left = 0, rect_top = 0, rect_width = 800, rect_height = 600\<rparr>) initialState
       \<lparr>wheelClientX = 100, wheelClientY = 100, deltaY = - 1000\<rparr>
     = initialState\<lparr>zoom := 2, pan := \<lparr>px = - 100, py = - 100\<rparr>\<rparr> \<and>
   screenToWorld
     (handleWheel (Some \<lparr>rect_left = 0, rect_top = 0, rect_width = 800, rect_height = 600\<rparr>) initialState
        \<lparr>wheelClientX = 100, wheelClientY = 100, deltaY = - 1000\<rparr>)
     (wheelPoint \<lparr>rect_left = 0, rect_top = 0, rect_width = 800, rect_height = 600\<rparr>
        \<lparr>wheelClientX = 100, wheelClientY = 100, deltaY = - 1000\<rparr>)
     = \<lparr>px = 100, py = 100\<rparr>"
proof -
  have lo: "MIN_ZOOM \<le> zoom initialState" and hi: "zoom initialState \<le> MAX_ZOOM"
    by (simp_all add: initialState_def MIN_ZOOM_def MAX_ZOOM_def)
  have step: "handleWheel (Some \<lparr>rect_left = 0, rect_top = 0, rect_width = 800, rect_height = 600\<rparr>) initialState
       \<lparr>wheelClientX = 100, wheelClientY = 100, deltaY = - 1000\<rparr>
     = initialState\<lparr>zoom := 2, pan := \<lparr>px = - 100, py = - 100\<rparr>\<rparr>"
    by (simp add: handleWheel_def initialState_def Let_def MIN_ZOOM_def MAX_ZOOM_def)
  have old: "screenToWorld initialState
      (wheelPoint \<lparr>rect_left = 0, rect_top = 0, rect_width = 800, rect_height = 600\<rparr>
         \<lparr>wheelClientX = 100, wheelClientY = 100, deltaY = - 1000\<rparr>) = \<lparr>px = 100, py = 100\<rparr>"
    by (simp add: screenToWorld_def wheelPoint_def initialState_def)
  from zoom_anchor [OF lo hi, of "\<lparr>rect_left = 0, rect_top = 0, rect_width = 800, rect_height = 600\<rparr>"
      "\<lparr>wheelClientX = 100, wheelClientY = 100, deltaY = - 1000\<rparr>"] lo hi step old
  show ?thesis by simp
qed

text \<open>
  C2 (zoom bounds). Starting from a state whose zoom is 1, the initial zoom, after every
  finite sequence of wheel events, with arbitrary wheel deltas and pointer positions,
  the zoom lies in [0.1, 5.0].
\<close>

theorem zoom_bounds:
  assumes "zoom s = 1"
  shows "0.1 \<le> zoom (wheelRun s es) \<and> zoom (wheelRun s es) \<le> 5"
proof -
  from assms have "MIN_ZOOM \<le> zoom s" and "zoom s \<le> MAX_ZOOM"
    by (simp_all add: MIN_ZOOM_def MAX_ZOOM_def)
  then have "MIN_ZOOM \<le> zoom (wheelRun s es) \<and> zoom (wheelRun s es) \<le> MAX_ZOOM"
    by (rule wheelRun_zoom_inv)
  then show ?thesis
    by (simp add: MIN_ZOOM_def MAX_ZOOM_def)
qed

theorem zoom_bounds_witness:
  "zoom initialState = 1 \<and>
   zoom (wheelRun initialState
     [(Some \<lparr>rect_left = 0, rect_top = 0, rect_width = 800, rect_height = 600\<rparr>,
       \<lparr>wheelClientX = 100, wheelClientY = 100, deltaY = - 10000\<rparr>)]) = 5 \<and>
   zoom (wheelRun initialState
     [(Some \<lparr>rect_left = 0, rect_top = 0, rect_width = 800, rect_height = 600\<rparr>,
       \<lparr>wheelClientX = 100, wheelClientY = 100, deltaY = - 10000\<rparr>),
      (None, \<lparr>wheelClientX = 7, wheelClientY = 7, deltaY = 3\<rparr>),
      (Some \<lparr>rect_left = 0, rect_top = 0, rect_width = 800, rect_height = 600\<rparr>,
       \<lparr>wheelClientX = 300, wheelClientY = 20, deltaY = 2000\<rparr>)]) = 0.1 \<and>
   0.1 \<le> zoom (wheelRun initialState
     [(Some \<lparr>rect_left = 0, rect_top = 0, rect_width = 800, rect_height = 600\<rparr>,
       \<lparr>wheelClientX = 100, wheelClientY = 100, deltaY = - 10000\<rparr>),
      (None, \<lparr>wheelClientX = 7, wheelClientY = 7, deltaY = 3\<rparr>),
      (Some \<lparr>rect_left = 0, rect_top = 0, rect_width = 800, rect_height = 600\<rparr>,
       \<lparr>wheelClientX = 300, wheelClientY = 20, deltaY = 2000\<rparr>)])"
proof -
  have z: "zoom initialState = 1" by (simp add: initialState_def)
  have one: "zoom (wheelRun initialState
     [(Some \<lparr>rect_left = 0, rect_top = 0, rect_width = 800, rect_height = 600\<rparr>,
       \<lparr>wheelClientX = 100, wheelClientY = 100, deltaY = - 10000\<rparr>)]) = 5"
    by (simp add: handleWheel_def initialState_def Let_def MIN_ZOOM_def MAX_ZOOM_def)
  have three: "zoom (wheelRun initialState
     [(Some \<lparr>rect_left = 0, rect_top = 0, rect_width = 800, rect_height = 600\<rparr>,
       \<lparr>wheelClientX = 100, wheelClientY = 100, deltaY = - 10000\<rparr>),
      (None, \<lparr>wheelClientX = 7, wheelClientY = 7, deltaY = 3\<rparr>),
      (Some \<lparr>rect_left = 0, rect_top = 0, rect_width = 800, rect_height = 600\<rparr>,
       \<lparr>wheelClientX = 300, wheelClientY = 20, deltaY = 2000\<rparr>)]) = 0.1"
    by (simp add: handleWheel_def initialState_def Let_def MIN_ZOOM_def MAX_ZOOM_def)
  from zoom_bounds [OF z, of
     "[(Some \<lparr>rect_left = 0, rect_top = 0, rect_width = 800, rect_height = 600\<rparr>,
       \<lparr>wheelClientX = 100, wheelClientY = 100, deltaY = - 10000\<rparr>),
      (None, \<lparr>wheelClientX = 7, wheelClientY = 7, deltaY = 3\<rparr>),
      (Some \<lparr>rect_left = 0, rect_top = 0, rect_width = 800, rect_height = 600\<rparr>,
       \<lparr>wheelClientX = 300, wheelClientY = 20, deltaY = 2000\<rparr>)]"] z one three
  show ?thesis by simp
qed

section \<open>Marquee commit and generate trigger\<close>

lemma marqueeSelectedIds_set:
  "set (marqueeSelectedIds s m elements) = el_id ` {el \<in> set elements. centerInMarquee s m el}"
  by (auto simp: marqueeSelectedIds_def selectionBoxOf_def centerInMarquee_def Let_def)

text \<open>
  C8 (marquee centre-only hit test). On pointer-up with a marquee, \<open>onMarqueeSelect\<close>
  receives the computed id list when it is non-empty (and is not called otherwise), and
  an element of the document, whose ids are distinct, has its id in that list if and only
  if its centre lies in the axis-aligned world rectangle spanned by the two marquee
  corners after \<open>screenToWorld\<close>. Width, height and rotation play no part: a 100 by 100 note
  centred at (10, 10), whose body covers the marquee corner (5, 5), is not selected by
  the marquee from (0, 0) to (5, 5).
\<close>

theorem marquee_center_only:
  assumes "marqueeRect s = Some m" and "distinct (map el_id elements)" and "el \<in> set elements"
  shows "snd (handleMouseUp s elements e)
           = (if marqueeSelectedIds s m elements = [] then []
              else [OnMarqueeSelect (marqueeSelectedIds s m elements) (shiftKey e)]) \<and>
         (el_id el \<in> set (marqueeSelectedIds s m elements) \<longleftrightarrow> centerInMarquee s m el)"
proof -
  have inj: "inj_on el_id (set elements)"
    using assms(2) by (simp add: distinct_map)
  have "el_id el \<in> set (marqueeSelectedIds s m elements) \<longleftrightarrow> centerInMarquee s m el"
  proof
    assume "el_id el \<in> set (marqueeSelectedIds s m elements)"
    then obtain x where x: "x \<in> set elements" "centerInMarquee s m x" "el_id x = el_id el"
      by (auto simp: marqueeSelectedIds_set)
    with inj assms(3) have "x = el" by (auto dest: inj_onD)
    with x show "centerInMarquee s m el" by simp
  next
    assume "centerInMarquee s m el"
    with assms(3) show "el_id el \<in> set (marqueeSelectedIds s m elements)"
      by (auto simp: marqueeSelectedIds_set)
  qed
  moreover have "snd (handleMouseUp s elements e)
           = (if marqueeSelectedIds s m elements = [] then []
              else [OnMarqueeSelect (marqueeSelectedIds s m elements) (shiftKey e)])"
    using assms(1) by (simp add: handleMouseUp_def Let_def)
  ultimately show ?thesis by simp
qed

theorem marquee_center_only_witness:
  "marqueeRect exampleMarquee = Some \<lparr>m_start = \<lparr>px = 5, py = 5\<rparr>, m_end = \<lparr>px = 0, py = 0\<rparr>\<rparr> \<and>
   distinct (map el_id [exampleBig, exampleNote]) \<and>
   exampleBig \<in> set [exampleBig, exampleNote] \<and>
   handleMouseUp exampleMarquee [exampleBig, exampleNote] (moveTo 0 0)
     = (initialState, [OnMarqueeSelect [''note-1''] False]) \<and>
   \<not> centerInMarquee exampleMarquee \<lparr>m_start = \<lparr>px = 5, py = 5\<rparr>, m_end = \<lparr>px = 0, py = 0\<rparr>\<rparr> exampleBig \<and>
   el_id exampleBig \<notin> set (marqueeSelectedIds exampleMarquee
       \<lparr>m_start = \<lparr>px = 5, py = 5\<rparr>, m_end = \<lparr>px = 0, py = 0\<rparr>\<rparr> [exampleBig, exampleNote]) \<and>
   \<bar>5 - px (position exampleBig)\<bar> \<le> width exampleBig / 2 \<and>
   \<bar>5 - py (position exampleBig)\<bar> \<le> height exampleBig / 2"
proof -
  have m: "marqueeRect exampleMarquee = Some \<lparr>m_start = \<lparr>px = 5, py = 5\<rparr>, m_end = \<lparr>px = 0, py = 0\<rparr>\<rparr>"
    by (simp add: exampleMarquee_def)
  have d: "distinct (map el_id [exampleBig, exampleNote])"
    by (simp add: exampleBig_def exampleNote_def)
  have i: "exampleBig \<in> set [exampleBig, exampleNote]" by simp
  have up: "handleMouseUp exampleMarquee [exampleBig, exampleNote] (moveTo 0 0)
     = (initialState, [OnMarqueeSelect [''note-1''] False])"
    by (simp add: handleMouseUp_def marqueeSelectedIds_def selectionBoxOf_def screenToWorld_def
        exampleMarquee_def initialState_def exampleBig_def exampleNote_def moveTo_def Let_def)
  have out: "\<not> centerInMarquee exampleMarquee
      \<lparr>m_start = \<lparr>px = 5, py = 5\<rparr>, m_end = \<lparr>px = 0, py = 0\<rparr>\<rparr> exampleBig"
    by (simp add: centerInMarquee_def screenToWorld_def exampleMarquee_def initialState_def
        exampleBig_def Let_def)
  from marquee_center_only [OF m d i, of "moveTo 0 0"] out
  have "el_id exampleBig \<notin> set (marqueeSelectedIds exampleMarquee
       \<lparr>m_start = \<lparr>px = 5, py = 5\<rparr>, m_end = \<lparr>px = 0, py = 0\<rparr>\<rparr> [exampleBig, exampleNote])"
    by simp
  moreover have "\<bar>5 - px (position exampleBig)\<bar> \<le> width exampleBig / 2 \<and>
     \<bar>5 - py (position exampleBig)\<bar> \<le> height exampleBig / 2"
    by (simp add: exampleBig_def)
  ultimately show ?thesis using m d i up out by simp
qed

text \<open>
  C9 (empty-selection generate no-op). The generate trigger never changes the canvas
  state; it calls \<open>onGenerate\<close> if and only if the list of currently selected elements
  is non-empty, exactly once and with that list of full element values; with an empty
  selection it makes no call.
\<close>

theorem generate_trigger:
  "fst (handleGenerateClick s elements ids) = s \<and>
   snd (handleGenerateClick s elements ids)
     = (if currentSelection elements ids = [] then []
        else [OnGenerate (currentSelection elements ids)]) \<and>
   ((\<exists>args. OnGenerate args \<in> set (snd (handleGenerateClick s elements ids)))
      \<longleftrightarrow> currentSelection elements ids \<noteq> [])"
  by (simp add: handleGenerateClick_def currentSelection_def Let_def)

theorem generate_trigger_witness:
  "handleGenerateClick initialState [exampleNote, exampleArrow] [''arrow-1'', ''gone'']
     = (initialState, [OnGenerate [exampleArrow]]) \<and>
   handleGenerateClick initialState [exampleNote, exampleArrow] [] = (initialState, []) \<and>
   handleGenerateClick initialState [exampleNote, exampleArrow] [''gone''] = (initialState, [])"
proof -
  have a: "currentSelection [exampleNote, exampleArrow] [''arrow-1'', ''gone''] = [exampleArrow]"
    by (simp add: currentSelection_def exampleNote_def exampleArrow_def)
  have b: "currentSelection [exampleNote, exampleArrow] [] = []"
    by (simp add: currentSelection_def)
  have c: "currentSelection [exampleNote, exampleArrow] [''gone''] = []"
    by (simp add: currentSelection_def exampleNote_def exampleArrow_def)
  from generate_trigger [of initialState "[exampleNote, exampleArrow]" "[''arrow-1'', ''gone'']"]
    generate_trigger [of initialState "[exampleNote, exampleArrow]" "[]"]
    generate_trigger [of initialState "[exampleNote, exampleArrow]" "[''gone'']"]
  show ?thesis
    unfolding a b c by (simp add: prod_eq_iff)
qed

text \<open>
  C10 (empty marquee commit is silent). On pointer-up with a marquee whose world
  rectangle contains no element centre, no callback is invoked and the marquee is
  discarded. More generally pointer-up never calls \<open>onMarqueeSelect\<close> with the empty list
  and never calls \<open>onSelectElement\<close>; the call \<open>onSelectElement(null, shift)\<close> is made by
  pointer-down, exactly when the left button goes down outside the handles, element
  bodies and generate button while the space bar is not held.
\<close>

theorem empty_marquee_silent:
  assumes "marqueeRect s = Some m" and "\<forall>el \<in> set elements. \<not> centerInMarquee s m el"
  shows "handleMouseUp s elements e = (s\<lparr>isPanning := False, marqueeRect := None\<rparr>, []) \<and>
         OnMarqueeSelect [] b \<notin> set (snd (handleMouseUp s' elements' e')) \<and>
         OnSelectElement x b \<notin> set (snd (handleMouseUp s' elements' e')) \<and>
         snd (handleMouseDown s' e')
           = (if button e' = 0 \<and> \<not> targetClosest e' \<and> \<not> isSpacebarPressed s'
              then [OnSelectElement None (shiftKey e')] else [])"
proof -
  have "set (marqueeSelectedIds s m elements) = {}"
    using assms(2) by (auto simp: marqueeSelectedIds_set)
  then have "marqueeSelectedIds s m elements = []" by simp
  with assms(1) have "handleMouseUp s elements e = (s\<lparr>isPanning := False, marqueeRect := None\<rparr>, [])"
    by (simp add: handleMouseUp_def Let_def)
  moreover have "OnMarqueeSelect [] b \<notin> set (snd (handleMouseUp s' elements' e'))"
    by (simp add: handleMouseUp_def Let_def split: option.splits)
  moreover have "OnSelectElement x b \<notin> set (snd (handleMouseUp s' elements' e'))"
    by (simp add: handleMouseUp_def Let_def split: option.splits)
  moreover have "snd (handleMouseDown s' e')
           = (if button e' = 0 \<and> \<not> targetClosest e' \<and> \<not> isSpacebarPressed s'
              then [OnSelectElement None (shiftKey e')] else [])"
    by (simp add: handleMouseDown_def)
  ultimately show ?thesis by simp
qed

theorem empty_marquee_silent_witness:
  "marqueeRect exampleMarquee = Some \<lparr>m_start = \<lparr>px = 5, py = 5\<rparr>, m_end = \<lparr>px = 0, py = 0\<rparr>\<rparr> \<and>
   \<not> centerInMarquee exampleMarquee
       \<lparr>m_start = \<lparr>px = 5, py = 5\<rparr>, m_end = \<lparr>px = 0, py = 0\<rparr>\<rparr> exampleBig \<and>
   \<not> centerInMarquee exampleMarquee
       \<lparr>m_start = \<lparr>px = 5, py = 5\<rparr>, m_end = \<lparr>px = 0, py = 0\<rparr>\<rparr> exampleArrow \<and>
   handleMouseUp exampleMarquee [exampleBig, exampleArrow] (moveTo 0 0) = (initialState, [])"
proof -
  have m: "marqueeRect exampleMarquee = Some \<lparr>m_start = \<lparr>px = 5, py = 5\<rparr>, m_end = \<lparr>px = 0, py = 0\<rparr>\<rparr>"
    by (simp add: exampleMarquee_def)
  have out: "\<forall>el \<in> set [exampleBig, exampleArrow].
      \<not> centerInMarquee exampleMarquee \<lparr>m_start = \<lparr>px = 5, py = 5\<rparr>, m_end = \<lparr>px = 0, py = 0\<rparr>\<rparr> el"
    by (simp add: centerInMarquee_def screenToWorld_def exampleMarquee_def initialState_def
        exampleBig_def exampleArrow_def Let_def)
  have st: "exampleMarquee\<lparr>isPanning := False, marqueeRect := None\<rparr> = initialState"
    by (simp add: exampleMarquee_def initialState_def)
  from empty_marquee_silent [OF m out, of "moveTo 0 0"] m out st
  show ?thesis by simp
qed

section \<open>Gesture properties\<close>

text \<open>
  The snapshot: a left-button pointer-down on an element fills the interaction slot with
  the pointer position and the element as it is at that moment, and selects the element.
\<close>

lemma handleInteractionStart_snapshot:
  assumes "button e = 0"
  shows "\<exists>i. handleInteractionStart elementRef element slot e ty
              = (Some i, [OnSelectElement (Some (el_id element)) (shiftKey e)]) \<and>
             itype i = ty \<and> startElement i = element \<and>
             startPoint i = \<lparr>px = clientX e, py = clientY e\<rparr>"
  using assms
  by (cases elementRef) (simp_all add: handleInteractionStart_def Let_def)

text \<open>
  C4 (drag rule). For every element with gesture-start snapshot S and every pointer
  displacement at a nonzero zoom z, a drag move calls \<open>onUpdate\<close> with an element whose
  position is S.position plus the displacement divided by z; width, height and rotation
  (and id and z-index) keep their snapshot values; if S is an Arrow, start and end are
  both translated by the same world delta, and the payload of a Note or Image is
  unchanged.
\<close>

theorem drag_rule:
  assumes "z \<noteq> 0"
  shows "\<exists>u d. handleInteractionMove
            (Some \<lparr>itype = Drag, startPoint = p0, startElement = S, startAngle = a, center = c\<rparr>)
            z el e = Inr (Some (u, d)) \<and>
          position u = translate (position S) ((clientX e - px p0) / z) ((clientY e - py p0) / z) \<and>
          width u = width S \<and> height u = height S \<and> rotation u = rotation S \<and>
          el_id u = el_id S \<and> zIndex u = zIndex S \<and>
          payload u =
            (case payload S of
               ArrowData st en col \<Rightarrow>
                 ArrowData (translate st ((clientX e - px p0) / z) ((clientY e - py p0) / z))
                           (translate en ((clientX e - px p0) / z) ((clientY e - py p0) / z)) col
             | other \<Rightarrow> other)"
  by (cases "payload S") (simp_all add: handleInteractionMove_def Let_def translate_def)

theorem drag_rule_witness:
  "(2::real) \<noteq> 0 \<and>
   handleInteractionMove (Some (gestureAt Drag 10 10 exampleArrow)) 2 exampleArrow (moveTo 70 30)
     = Inr (Some (exampleArrow\<lparr>position := \<lparr>px = 80, py = 10\<rparr>,
                    payload := ArrowData \<lparr>px = 30, py = 10\<rparr> \<lparr>px = 130, py = 10\<rparr> ''text-gray-800''\<rparr>,
                  Some \<lparr>px = 30, py = 10\<rparr>))"
proof -
  have z: "(2::real) \<noteq> 0" by simp
  from drag_rule [OF z, of "\<lparr>px = 10, py = 10\<rparr>" exampleArrow None None exampleArrow "moveTo 70 30"]
  obtain u d where
    r: "handleInteractionMove (Some (gestureAt Drag 10 10 exampleArrow)) 2 exampleArrow (moveTo 70 30)
          = Inr (Some (u, d))"
    and p: "position u = \<lparr>px = 80, py = 10\<rparr>"
    and q: "payload u = ArrowData \<lparr>px = 30, py = 10\<rparr> \<lparr>px = 130, py = 10\<rparr> ''text-gray-800''"
    by (auto simp: gestureAt_def moveTo_def exampleArrow_def translate_def)
  have "handleInteractionMove (Some (gestureAt Drag 10 10 exampleArrow)) 2 exampleArrow (moveTo 70 30)
     = Inr (Some (exampleArrow\<lparr>position := \<lparr>px = 80, py = 10\<rparr>,
                    payload := ArrowData \<lparr>px = 30, py = 10\<rparr> \<lparr>px = 130, py = 10\<rparr> ''text-gray-800''\<rparr>,
                  Some \<lparr>px = 30, py = 10\<rparr>))"
    by (simp add: handleInteractionMove_def gestureAt_def moveTo_def exampleArrow_def Let_def)
  with z r p q show ?thesis by simp
qed

text \<open>
  C5 (resize floor). For every Note or Image snapshot S and every pointer displacement
  at a nonzero zoom, a resize move calls \<open>onUpdate\<close> with width
  \<open>max 20 (S.width + dx')\<close> and height \<open>max 20 (S.height + dy')\<close>, where \<open>(dx', dy')\<close> is
  the world-space delta rotated by \<open>- S.rotation\<close>; both are at least 20.
\<close>

theorem resize_floor:
  assumes "isNote S \<or> isImage S" and "z \<noteq> 0"
  shows "\<exists>u. handleInteractionMove
            (Some \<lparr>itype = Resize, startPoint = p0, startElement = S, startAngle = a, center = c\<rparr>)
            z el e = Inr (Some (u, None)) \<and>
          width u =
            max 20 (width S + px (rotate \<lparr>px = (clientX e - px p0) / z, py = (clientY e - py p0) / z\<rparr>
                                        (- rotation S))) \<and>
          height u =
            max 20 (height S + py (rotate \<lparr>px = (clientX e - px p0) / z, py = (clientY e - py p0) / z\<rparr>
                                         (- rotation S))) \<and>
          20 \<le> width u \<and> 20 \<le> height u"
  by (simp add: handleInteractionMove_def Let_def rotate_def)

theorem resize_floor_witness:
  "(isNote exampleNote \<or> isImage exampleNote) \<and> (1::real) \<noteq> 0 \<and>
   handleInteractionMove (Some (gestureAt Resize 50 25 exampleNote)) 1 exampleNote (moveTo (-150) 35)
     = Inr (Some (exampleNote\<lparr>width := 20, height := 60, position := \<lparr>px = - 40, py = 5\<rparr>\<rparr>, None))"
proof -
  have n: "isNote exampleNote \<or> isImage exampleNote" by (simp add: exampleNote_def)
  have z: "(1::real) \<noteq> 0" by simp
  from resize_floor [OF n z, of "\<lparr>px = 50, py = 25\<rparr>" None None exampleNote "moveTo (-150) 35"]
  obtain u where
    r: "handleInteractionMove (Some (gestureAt Resize 50 25 exampleNote)) 1 exampleNote (moveTo (-150) 35)
          = Inr (Some (u, None))"
    and w: "20 \<le> width u" and h: "20 \<le> height u"
    by (auto simp: gestureAt_def)
  have "handleInteractionMove (Some (gestureAt Resize 50 25 exampleNote)) 1 exampleNote (moveTo (-150) 35)
     = Inr (Some (exampleNote\<lparr>width := 20, height := 60, position := \<lparr>px = - 40, py = 5\<rparr>\<rparr>, None))"
    by (simp add: handleInteractionMove_def gestureAt_def moveTo_def exampleNote_def Let_def)
  with n z r w h show ?thesis by simp
qed

text \<open>
  C6 (resize anchor). For every Note snapshot S with rotation 0 and every pointer
  displacement at a nonzero zoom, the element produced by a resize move has the same
  top-left corner \<open>position - (width / 2, height / 2)\<close> as S.
\<close>

theorem resize_anchor:
  assumes "isNote S" and "rotation S = 0" and "z \<noteq> 0"
  shows "\<exists>u. handleInteractionMove
            (Some \<lparr>itype = Resize, startPoint = p0, startElement = S, startAngle = a, center = c\<rparr>)
            z el e = Inr (Some (u, None)) \<and>
          topLeft u = topLeft S"
  using assms(2)
  by (simp add: handleInteractionMove_def Let_def topLeft_def field_simps)

theorem resize_anchor_witness:
  "isNote exampleNote \<and> rotation exampleNote = 0 \<and> (1::real) \<noteq> 0 \<and>
   handleInteractionMove (Some (gestureAt Resize 50 25 exampleNote)) 1 exampleNote (moveTo 90 45)
     = Inr (Some (exampleNote\<lparr>width := 140, height := 70, position := \<lparr>px = 20, py = 10\<rparr>\<rparr>, None)) \<and>
   topLeft (exampleNote\<lparr>width := 140, height := 70, position := \<lparr>px = 20, py = 10\<rparr>\<rparr>)
     = \<lparr>px = - 50, py = - 25\<rparr> \<and>
   topLeft exampleNote = \<lparr>px = - 50, py = - 25\<rparr>"
proof -
  have n: "isNote exampleNote" and r0: "rotation exampleNote = 0"
    by (simp_all add: exampleNote_def)
  have z: "(1::real) \<noteq> 0" by simp
  have step: "handleInteractionMove (Some (gestureAt Resize 50 25 exampleNote)) 1 exampleNote (moveTo 90 45)
     = Inr (Some (exampleNote\<lparr>width := 140, height := 70, position := \<lparr>px = 20, py = 10\<rparr>\<rparr>, None))"
    by (simp add: handleInteractionMove_def gestureAt_def moveTo_def exampleNote_def Let_def)
  have tl: "topLeft exampleNote = \<lparr>px = - 50, py = - 25\<rparr>"
    by (simp add: topLeft_def exampleNote_def)
  from resize_anchor [OF n r0 z, of "\<lparr>px = 50, py = 25\<rparr>" None None exampleNote "moveTo 90 45"]
  have "topLeft (exampleNote\<lparr>width := 140, height := 70, position := \<lparr>px = 20, py = 10\<rparr>\<rparr>)
          = topLeft exampleNote"
    using step by (auto simp: gestureAt_def)
  with n r0 z step tl show ?thesis by simp
qed

section \<open>The arrow invariant\<close>

lemma sqrt_nine: "sqrt 9 = 3"
  by (rule real_sqrt_unique) simp_all

text \<open>
  C3 as stated fails. The arrow from (0, 0) to (100, 0) satisfies the invariant; dragging
  its end handle 97 pixels to the left at zoom 1 puts the end at (3, 0), so that
  \<open>|end - start| = 3\<close>, and the element handed to \<open>onUpdate\<close> has width 10: the length
  is floored by \<open>Math.max(10, \<dots>)\<close>.
\<close>

theorem arrow_invariant_counterexample:
  "arrowInvariant exampleArrow \<and>
   handleInteractionMove (Some (gestureAt ResizeArrowEnd 100 0 exampleArrow)) 1 exampleArrow
       (moveTo 3 0)
     = Inr (Some (exampleArrow\<lparr>payload := ArrowData \<lparr>px = 0, py = 0\<rparr> \<lparr>px = 3, py = 0\<rparr> ''text-gray-800'',
                               position := \<lparr>px = 3 / 2, py = 0\<rparr>, width := 10, rotation := 0\<rparr>,
                  None)) \<and>
   arrowLength \<lparr>px = 0, py = 0\<rparr> \<lparr>px = 3, py = 0\<rparr> = 3 \<and>
   \<not> arrowInvariant
       (exampleArrow\<lparr>payload := ArrowData \<lparr>px = 0, py = 0\<rparr> \<lparr>px = 3, py = 0\<rparr> ''text-gray-800'',
                      position := \<lparr>px = 3 / 2, py = 0\<rparr>, width := 10, rotation := 0\<rparr>)"
  by (simp add: arrowInvariant_def exampleArrow_def arrowLength_def atan2_def
      handleInteractionMove_def gestureAt_def moveTo_def Let_def sqrt_nine)

text \<open>
  C3 (arrow invariant round-trip), amended. For every Arrow whose snapshot satisfies the
  invariant and every pointer displacement at a nonzero zoom: a drag move produces an
  element that satisfies the invariant (position = (start + end) / 2,
  width = |end - start|, rotation = atan2 of the start-to-end vector in degrees); a
  resize-arrow-start or resize-arrow-end move produces an element with
  position = (start + end) / 2, rotation = atan2 of the start-to-end vector in degrees
  and width = max 10 |end - start|.
\<close>

theorem arrow_gestures_invariant:
  assumes "arrowInvariant S" and "z \<noteq> 0"
    and "ty = Drag \<or> ty = ResizeArrowStart \<or> ty = ResizeArrowEnd"
  shows "\<exists>u d. handleInteractionMove
            (Some \<lparr>itype = ty, startPoint = p0, startElement = S, startAngle = a, center = c\<rparr>)
            z el e = Inr (Some (u, d)) \<and>
          (if ty = Drag then arrowInvariant u else arrowInvariantFloored u)"
proof -
  from assms(1) obtain st en col where S: "payload S = ArrowData st en col"
    and pos: "position S = \<lparr>px = (px st + px en) / 2, py = (py st + py en) / 2\<rparr>"
    and wd: "width S = arrowLength st en"
    and rot: "rotation S = atan2 (py en - py st) (px en - px st) * (180 / pi)"
    by (auto simp: arrowInvariant_def split: ElementData.splits)
  from assms(3) consider "ty = Drag" | "ty = ResizeArrowStart" | "ty = ResizeArrowEnd" by blast
  then show ?thesis
  proof cases
    case 1
    then show ?thesis
      using S pos wd rot
      by (simp add: handleInteractionMove_def Let_def arrowInvariant_def arrowLength_def
          add_divide_distrib)
  next
    case 2
    then show ?thesis
      using S
      by (simp add: handleInteractionMove_def Let_def arrowInvariantFloored_def arrowLength_def
          power2_eq_square)
  next
    case 3
    then show ?thesis
      using S
      by (simp add: handleInteractionMove_def Let_def arrowInvariantFloored_def arrowLength_def
          power2_eq_square)
  qed
qed

theorem arrow_gestures_invariant_witness:
  "arrowInvariant exampleArrow \<and> (1::real) \<noteq> 0 \<and>
   handleInteractionMove (Some (gestureAt ResizeArrowEnd 100 0 exampleArrow)) 1 exampleArrow
       (moveTo 100 100)
     = Inr (Some (exampleArrow\<lparr>payload := ArrowData \<lparr>px = 0, py = 0\<rparr> \<lparr>px = 100, py = 100\<rparr> ''text-gray-800'',
                               position := \<lparr>px = 50, py = 50\<rparr>, width := max 10 (sqrt 20000),
                               rotation := 45\<rparr>,
                  None)) \<and>
   arrowInvariantFloored
     (exampleArrow\<lparr>payload := ArrowData \<lparr>px = 0, py = 0\<rparr> \<lparr>px = 100, py = 100\<rparr> ''text-gray-800'',
                    position := \<lparr>px = 50, py = 50\<rparr>, width := max 10 (sqrt 20000),
                    rotation := 45\<rparr>)"
proof -
  have inv: "arrowInvariant exampleArrow"
    by (simp add: arrowInvariant_def exampleArrow_def arrowLength_def atan2_def)
  have z: "(1::real) \<noteq> 0" by simp
  have ty: "ResizeArrowEnd = Drag \<or> ResizeArrowEnd = ResizeArrowStart \<or> ResizeArrowEnd = ResizeArrowEnd"
    by simp
  have step: "handleInteractionMove (Some (gestureAt ResizeArrowEnd 100 0 exampleArrow)) 1 exampleArrow
       (moveTo 100 100)
     = Inr (Some (exampleArrow\<lparr>payload := ArrowData \<lparr>px = 0, py = 0\<rparr> \<lparr>px = 100, py = 100\<rparr> ''text-gray-800'',
                               position := \<lparr>px = 50, py = 50\<rparr>, width := max 10 (sqrt 20000),
                               rotation := 45\<rparr>,
                  None))"
    by (simp add: handleInteractionMove_def gestureAt_def moveTo_def exampleArrow_def Let_def
        atan2_def arctan_one)
  from arrow_gestures_invariant [OF inv z ty, of "\<lparr>px = 100, py = 0\<rparr>" None None exampleArrow
      "moveTo 100 100"]
  have "arrowInvariantFloored
     (exampleArrow\<lparr>payload := ArrowData \<lparr>px = 0, py = 0\<rparr> \<lparr>px = 100, py = 100\<rparr> ''text-gray-800'',
                    position := \<lparr>px = 50, py = 50\<rparr>, width := max 10 (sqrt 20000),
                    rotation := 45\<rparr>)"
    using step by (auto simp: gestureAt_def)
  with inv z step show ?thesis by simp
qed

section \<open>Snapshot purity\<close>

lemma updatedElementOf_element_irrelevant:
  "updatedElementOf (handleInteractionMove i z el e)
     = updatedElementOf (handleInteractionMove i z el' e)"
  by (simp add: handleInteractionMove_def updatedElementOf_def Let_def
      split: option.splits ElementData.splits)

lemma gestureRun_snoc:
  "gestureRun store i z el (es @ [e]) \<noteq> [] \<and>
   (\<exists>el''. last (gestureRun store i z el (es @ [e]))
              = updatedElementOf (handleInteractionMove i z el'' e))"
proof (induction es arbitrary: el)
  case Nil
  show ?case by (auto simp: Let_def)
next
  case (Cons x es)
  show ?case using Cons.IH by (simp add: Let_def)
qed

text \<open>
  C7 (snapshot purity). For every interaction slot (every gesture kind and snapshot),
  zoom and final pointer event, the outcome of the last move event of a gesture, that
  is the element handed to \<open>onUpdate\<close>, is the same whatever intermediate move events
  came before it, whatever the document store did with their updates and whatever the
  \<open>element\<close> prop was: it is the outcome of that one event on the snapshot.
\<close>

theorem snapshot_purity:
  "last (gestureRun store i z el (es @ [e])) = last (gestureRun store' i z el' (es' @ [e])) \<and>
   last (gestureRun store i z el (es @ [e])) = updatedElementOf (handleInteractionMove i z el e)"
proof -
  have one: "last (gestureRun st i z x (xs @ [e])) = updatedElementOf (handleInteractionMove i z el e)"
    for st x xs
  proof -
    from gestureRun_snoc [of st i z x xs e] obtain el'' where
      "last (gestureRun st i z x (xs @ [e])) = updatedElementOf (handleInteractionMove i z el'' e)"
      by blast
    also have "\<dots> = updatedElementOf (handleInteractionMove i z el e)"
      by (rule updatedElementOf_element_irrelevant)
    finally show ?thesis .
  qed
  show ?thesis by (simp add: one)
qed

end
